theory Spec2Isabelle
  imports Main
begin

section \<open>JavaScript values used by the onboarding store\<close>

text \<open>
  A string is the sequence of the UTF-8 bytes of the JavaScript string. \<open>isTruthy\<close>
  is JavaScript truthiness of a value that is a string or \<open>null\<close>/\<open>undefined\<close>:
  only a non-empty string is truthy.
\<close>

definition isTruthy :: "string option \<Rightarrow> bool" where
  "isTruthy v = (case v of None \<Rightarrow> False | Some s \<Rightarrow> s \<noteq> [])"

text \<open>\<open>String.prototype.includes\<close>: the needle occurs as a contiguous substring.\<close>

fun includes_str :: "string \<Rightarrow> string \<Rightarrow> bool" where
  "includes_str [] needle = (needle = [])"
| "includes_str (c # cs) needle =
     (take (length needle) (c # cs) = needle \<or> includes_str cs needle)"

text \<open>
  An error object, as far as the handlers of the store and of the wallet component
  inspect it: \<open>message\<close> (a string, or absent), \<open>code\<close>, \<open>response?.status\<close>, the
  truthiness of \<open>requiresInviteCode\<close> and the truthiness of
  \<open>response?.data?.requiresBotVerification\<close>.
\<close>

datatype js_code = CodeNum int | CodeStr string

record js_error =
  message :: "string option"
  code :: "js_code option"
  status :: "int option"
  requiresInviteCode :: bool
  dataRequiresBotVerification :: bool

text \<open>\<open>new Error(msg)\<close>: a message and nothing else.\<close>

definition Error :: "string \<Rightarrow> js_error" where
  "Error msg = \<lparr> message = Some msg, code = None, status = None,
                 requiresInviteCode = False, dataRequiresBotVerification = False \<rparr>"

text \<open>\<open>e.message?.includes(needle)\<close>: undefined (falsy) when there is no message.\<close>

definition messageIncludes :: "js_error \<Rightarrow> string \<Rightarrow> bool" where
  "messageIncludes e needle =
     (case message e of None \<Rightarrow> False | Some m \<Rightarrow> includes_str m needle)"

text \<open>
  What a \<open>throw\<close> or a rejected promise hands to a \<open>catch\<close> block.
  \<^item> \<open>Thrown err\<close>: an error object as above. A thrown primitive reads the same way
    as an object with none of the properties.
  \<^item> \<open>Nullish\<close>: \<open>null\<close> or \<open>undefined\<close>; reading any property of it raises a
    \<open>TypeError\<close>.
  \<^item> \<open>OddMessage c t\<close>: an object whose \<open>message\<close> is neither a string nor
    \<open>null\<close>/\<open>undefined\<close> and has no \<open>includes\<close> method (a number, a boolean, a
    plain object), so that \<open>message?.includes(...)\<close> raises a \<open>TypeError\<close>; \<open>c\<close> is
    its \<open>code\<close> and \<open>t\<close> the truthiness of its message, the only two things a
    handler reads of it before that call.
\<close>

datatype js_thrown = Thrown js_error | Nullish | OddMessage "js_code option" bool

text \<open>What a cell that is declared a string holds: a string, or another truthy value.\<close>

datatype js_text = Text string | NotText

section \<open>Data of the store (store/onboardingStore.ts)\<close>

record user =
  wallet :: string
  referralCode :: "string option"

text \<open>\<open>{ wallet: decodedToken.wallet } as User\<close>: the temporary user object.\<close>

definition stubUser :: "string \<Rightarrow> user" where
  "stubUser w = \<lparr> wallet = w, referralCode = None \<rparr>"

text \<open>
  \<open>completedSteps\<close> is declared an array of step names; \<open>initialize\<close> checks
  \<open>Array.isArray\<close> at run time, so the other shape is a value of the model too.
\<close>

datatype js_steps = StepArray "string list" | NotAnArray

record progress =
  completedSteps :: js_steps

text \<open>
  The value held in \<open>step\<close>. It is declared a number; \<open>initialize\<close> stores the result
  of \<open>stepMapping[k] + 1\<close>, which is a number, \<open>NaN\<close> (\<open>undefined + 1\<close>), or, when
  \<open>k\<close> names a member that the object literal inherits from \<open>Object.prototype\<close>, the
  string concatenation of that member with \<open>1\<close> (\<open>StepConcat k\<close>).
\<close>

datatype step_value = StepNum int | StepNaN | StepConcat string

text \<open>The calls that leave the page: the API gateway and the wallet provider.\<close>

datatype api_call =
    GetUserProfile string
  | GetOnboardingProgress
  | WalletSignMessage string
  | ConfirmAccount string string string string

text \<open>
  The world the store acts on: the six state fields of \<open>useStore\<close>, the
  \<open>jwt_token\<close> slot of \<open>localStorage\<close> (\<open>None\<close> is \<open>null\<close>), and the trace of
  outgoing calls, oldest first.
\<close>

record world =
  step :: step_value
  xp :: int
  user :: "user option"
  isUserLoading :: bool
  onboardingProgress :: "progress option"
  requiresBotVerification :: bool
  jwt_token :: "string option"
  calls :: "api_call list"

text \<open>
  What the code consumes and this repository's sources do not contain: whether
  \<open>window\<close> exists, the platform's \<open>JSON.parse(atob(token.split('.')[1]))\<close>
  followed by the read of \<open>.wallet\<close> (it throws, or yields the wallet field, \<open>None\<close>
  when absent), the responses of \<open>services/api\<close>, the wallet provider
  (obtaining the signer, then signing a message), and the text the engine gives the
  \<open>TypeError\<close> it raises at a failed property read or call, by the expression that
  failed. \<open>Inl\<close> is a throw or a rejected promise. An environment answers the same
  way every time it is asked.
\<close>

record env =
  hasWindow :: bool
  decodeToken :: "string \<Rightarrow> js_thrown + string option"
  getUserProfile :: "string \<Rightarrow> js_thrown + user"
  getOnboardingProgress :: "js_thrown + progress"
  getSigner :: "js_thrown + unit"
  signerSignMessage :: "string \<Rightarrow> js_thrown + string"
  confirmAccount :: "string \<Rightarrow> string \<Rightarrow> string \<Rightarrow> string \<Rightarrow> js_thrown + user option"
  typeErrorMessage :: "string \<Rightarrow> string"

text \<open>The \<open>TypeError\<close> raised at the expression \<open>site\<close>.\<close>

definition typeError :: "env \<Rightarrow> string \<Rightarrow> js_error" where
  "typeError e site = Error (typeErrorMessage e site)"

section \<open>Actions of the store\<close>

definition setStep :: "step_value \<Rightarrow> world \<Rightarrow> world" where
  "setStep s w = w\<lparr> step := s \<rparr>"

definition addXP :: "int \<Rightarrow> world \<Rightarrow> world" where
  "addXP amount w = w\<lparr> xp := xp w + amount \<rparr>"

definition setUser :: "user option \<Rightarrow> world \<Rightarrow> world" where
  "setUser u w = w\<lparr> user := u \<rparr>"

definition setRequiresBotVerification :: "bool \<Rightarrow> world \<Rightarrow> world" where
  "setRequiresBotVerification b w = w\<lparr> requiresBotVerification := b \<rparr>"

text \<open>
  \<open>fetchUser\<close>: nothing without a user that has a truthy wallet; otherwise the
  profile replaces the user on success, a failure is logged and absorbed, and
  \<open>isUserLoading\<close> ends false on both paths (\<open>finally\<close>).
\<close>

definition fetchUser :: "env \<Rightarrow> world \<Rightarrow> world" where
  "fetchUser e w =
     (case user w of
        None \<Rightarrow> w
      | Some u \<Rightarrow>
          if wallet u = [] then w
          else
            let w1 = w\<lparr> isUserLoading := True,
                        calls := calls w @ [GetUserProfile (wallet u)] \<rparr>;
                w2 = (case getUserProfile e (wallet u) of
                        Inr updatedUser \<Rightarrow> w1\<lparr> user := Some updatedUser \<rparr>
                      | Inl err \<Rightarrow> w1)
            in w2\<lparr> isUserLoading := False \<rparr>)"

definition resetStore :: "world \<Rightarrow> world" where
  "resetStore w = w\<lparr> step := StepNum 0, xp := 0, user := None, isUserLoading := False,
                     onboardingProgress := None, requiresBotVerification := False \<rparr>"

definition logout :: "world \<Rightarrow> world" where
  "logout w = w\<lparr> jwt_token := None, step := StepNum 0, user := None,
                 onboardingProgress := None, requiresBotVerification := False \<rparr>"

subsection \<open>The step table of \<open>initialize\<close>\<close>

definition stepMapping :: "(string \<times> int) list" where
  "stepMapping = [(''add_helios_network'', 3), (''claim_from_faucet'', 4),
                  (''mint_early_bird_nft'', 5)]"

text \<open>
  The property names every object literal inherits from \<open>Object.prototype\<close>; a lookup
  of one of them in \<open>stepMapping\<close> does not yield \<open>undefined\<close>.
\<close>

definition objectPrototypeKeys :: "string list" where
  "objectPrototypeKeys =
     [''constructor'', ''hasOwnProperty'', ''isPrototypeOf'', ''propertyIsEnumerable'',
      ''toLocaleString'', ''toString'', ''valueOf'', ''__proto__'',
      ''__defineGetter__'', ''__defineSetter__'', ''__lookupGetter__'',
      ''__lookupSetter__'']"

text \<open>\<open>stepMapping[lastCompletedStep] + 1\<close>.\<close>

definition nextStep :: "string \<Rightarrow> step_value" where
  "nextStep lastCompletedStep =
     (case map_of stepMapping lastCompletedStep of
        Some n \<Rightarrow> StepNum (n + 1)
      | None \<Rightarrow>
          if lastCompletedStep \<in> set objectPrototypeKeys
          then StepConcat lastCompletedStep
          else StepNaN)"

subsection \<open>\<open>initialize\<close>\<close>

text \<open>The two tests of the \<open>catch\<close> blocks, in the order the code makes them.\<close>

definition isNotConfirmed :: "js_error \<Rightarrow> bool" where
  "isNotConfirmed err =
     (messageIncludes err ''not confirmed'' \<or> status err = Some 403 \<or> requiresInviteCode err)"

definition confirmationError :: js_error where
  "confirmationError =
     (Error ''Account not confirmed. Please provide a valid invite code.'')
       \<lparr> requiresInviteCode := True \<rparr>"

definition invalidProgressError :: js_error where
  "invalidProgressError =
     Error ''Invalid onboarding progress data: completedSteps is not an array.''"

text \<open>
  The body of the inner \<open>try\<close>: decode the token, fetch the user when the token names
  a wallet, fetch the progress and derive the step. \<open>Inl\<close> is the value thrown.
\<close>

definition initialize_try :: "env \<Rightarrow> string \<Rightarrow> world \<Rightarrow> (js_thrown + unit) \<times> world" where
  "initialize_try e token w =
     (case decodeToken e token of
        Inl err \<Rightarrow> (Inl err, w)
      | Inr decodedWallet \<Rightarrow>
          (let w1 = (if isTruthy decodedWallet
                     then fetchUser e (w\<lparr> user := Some (stubUser (the decodedWallet)) \<rparr>)
                     else w);
               w2 = w1\<lparr> calls := calls w1 @ [GetOnboardingProgress] \<rparr>
           in (case getOnboardingProgress e of
                 Inl err \<Rightarrow> (Inl err, w2)
               | Inr p \<Rightarrow>
                   (let w3 = w2\<lparr> onboardingProgress := Some p \<rparr>
                    in (case completedSteps p of
                          NotAnArray \<Rightarrow> (Inl (Thrown invalidProgressError), w3)
                        | StepArray cs \<Rightarrow>
                            if length cs \<ge> 3 then (Inr (), w3\<lparr> step := StepNum 7 \<rparr>)
                            else if length cs > 0
                            then (Inr (), w3\<lparr> step := nextStep (last cs) \<rparr>)
                            else (Inr (), w3\<lparr> step := StepNum 2 \<rparr>))))))"

text \<open>
  The inner \<open>catch (progressError)\<close>: \<open>Inl\<close> throws on to the outer \<open>catch\<close>,
  \<open>Inr ()\<close> is the \<open>return\<close> that leaves \<open>initialize\<close>. Its first test starts with
  \<open>progressError.message?.includes(...)\<close>, which raises a \<open>TypeError\<close> on a nullish
  value and on a message without \<open>includes\<close>, before anything is written.
\<close>

definition initialize_catch_progress ::
  "env \<Rightarrow> js_thrown \<Rightarrow> world \<Rightarrow> (js_thrown + unit) \<times> world" where
  "initialize_catch_progress e progressError w =
     (case progressError of
        Nullish \<Rightarrow> (Inl (Thrown (typeError e ''progressError.message'')), w)
      | OddMessage c t \<Rightarrow>
          (Inl (Thrown (typeError e ''progressError.message?.includes'')), w)
      | Thrown err \<Rightarrow>
          if isNotConfirmed err
          then (Inl (Thrown confirmationError), w\<lparr> jwt_token := None, step := StepNum 0 \<rparr>)
          else if dataRequiresBotVerification err
          then (Inr (), w\<lparr> requiresBotVerification := True \<rparr>)
          else (Inl progressError, w\<lparr> jwt_token := None, step := StepNum 0 \<rparr>))"

text \<open>
  The outer \<open>catch (error)\<close>: \<open>Inl\<close> is the rejection the caller of \<open>initialize\<close>
  sees; the last branch sets the step and ends without a \<open>throw\<close>. \<open>isUserLoading\<close>
  is written before the tests.
\<close>

definition initialize_catch :: "env \<Rightarrow> js_thrown \<Rightarrow> world \<Rightarrow> (js_thrown + unit) \<times> world" where
  "initialize_catch e thrown w =
     (let w1 = w\<lparr> isUserLoading := False \<rparr>
      in case thrown of
           Nullish \<Rightarrow> (Inl (Thrown (typeError e ''error.message'')), w1)
         | OddMessage c t \<Rightarrow> (Inl (Thrown (typeError e ''error.message?.includes'')), w1)
         | Thrown err \<Rightarrow>
             if isNotConfirmed err
             then (Inl (Thrown confirmationError), w1\<lparr> jwt_token := None, step := StepNum 0 \<rparr>)
             else if dataRequiresBotVerification err
             then (Inr (), w1\<lparr> requiresBotVerification := True \<rparr>)
             else (Inr (), w1\<lparr> step := StepNum 0 \<rparr>))"

text \<open>
  The error that the tests of \<open>initialize\<close> end up classifying when its fetch phase
  has thrown \<open>x\<close>: the error object itself, or the \<open>TypeError\<close> that the inner
  \<open>catch\<close> raises while testing \<open>x\<close>.
\<close>

definition classified :: "env \<Rightarrow> js_thrown \<Rightarrow> js_error" where
  "classified e x =
     (case x of
        Thrown err \<Rightarrow> err
      | Nullish \<Rightarrow> typeError e ''progressError.message''
      | OddMessage c t \<Rightarrow> typeError e ''progressError.message?.includes'')"

definition initialize :: "env \<Rightarrow> world \<Rightarrow> (js_thrown + unit) \<times> world" where
  "initialize e w =
     (if \<not> hasWindow e then (Inr (), w)
      else if isTruthy (jwt_token w)
      then (case initialize_try e (the (jwt_token w)) (w\<lparr> isUserLoading := True \<rparr>) of
              (Inr u, w1) \<Rightarrow> (Inr (), w1)
            | (Inl progressError, w1) \<Rightarrow>
                (case initialize_catch_progress e progressError w1 of
                   (Inr u, w2) \<Rightarrow> (Inr (), w2)
                 | (Inl thrown, w2) \<Rightarrow> initialize_catch e thrown w2))
      else (Inr (), w\<lparr> step := StepNum 0 \<rparr>))"

section \<open>The wallet component (components/ConnectWallet.tsx)\<close>

text \<open>
  The \<open>useState\<close> cells of \<open>ConnectWallet\<close>. A handler or an effect reads the
  cells of the render it was created in and queues its writes for the next render.
\<close>

record cw_state =
  isLoading :: bool
  error :: "string option"
  needsInviteCode :: bool
  showDiscordLink :: bool
  inviteCode :: string
  inviteError :: "js_text option"
  hcaptchaToken :: "string option"
  pendingSignature :: "string option"
  pendingWallet :: "string option"
  previousConnectionState :: "bool option"
  wasEverConnected :: bool

definition cw_initial :: cw_state where
  "cw_initial = \<lparr> isLoading = False, error = None, needsInviteCode = False,
       showDiscordLink = False, inviteCode = [], inviteError = None, hcaptchaToken = None,
       pendingSignature = None, pendingWallet = None, previousConnectionState = None,
       wasEverConnected = False \<rparr>"

text \<open>\<open>a || ""\<close> on a string or \<open>null\<close>.\<close>

definition orEmpty :: "string option \<Rightarrow> string" where
  "orEmpty v = (if isTruthy v then the v else [])"

text \<open>
  \<open>handleDisconnect\<close>: the token is removed, the store is reset, and the cells of the
  component are queued back to their defaults, the invite code to the one of the URL.
\<close>

definition handleDisconnect :: "string option \<Rightarrow> world \<times> cw_state \<Rightarrow> world \<times> cw_state" where
  "handleDisconnect referralCodeFromUrl st =
     (case st of (w, cs) \<Rightarrow>
        (setStep (StepNum 0) (setUser None (resetStore (w\<lparr> jwt_token := None \<rparr>))),
         cs\<lparr> error := None, needsInviteCode := False, pendingSignature := None,
             pendingWallet := None, inviteCode := orEmpty referralCodeFromUrl,
             inviteError := None \<rparr>))"

subsection \<open>Connection tracking\<close>

definition isReallyConnected :: "bool \<Rightarrow> cw_state \<Rightarrow> bool" where
  "isReallyConnected isConnected cs = (isConnected \<or> wasEverConnected cs)"

text \<open>
  One render of the component with the provider's \<open>isConnected\<close>, followed by its
  effects in the order of declaration. \<open>deps\<close> holds \<open>isConnected\<close> and
  \<open>isReallyConnected\<close> of the previous render (\<open>None\<close> before the first one): an
  effect runs on the first render and whenever its dependency has changed. The three
  effects are the ones on \<open>[isConnected]\<close>, on \<open>[isReallyConnected]\<close> and the one on
  \<open>[]\<close> that checks the token; each reads the cells \<open>cs\<close> of this render and queues
  its writes into \<open>nxt\<close>. The two effects on the URL parameters write only
  \<open>inviteCode\<close>, \<open>needsInviteCode\<close>, \<open>pendingWallet\<close> and \<open>error\<close> and are left out.
\<close>

definition render_effects ::
  "string option \<Rightarrow> bool \<Rightarrow> (bool \<times> bool) option \<times> world \<times> cw_state
     \<Rightarrow> (bool \<times> bool) option \<times> world \<times> cw_state" where
  "render_effects referralCodeFromUrl isConnected st =
     (case st of (deps, w, cs) \<Rightarrow>
        let irc = isReallyConnected isConnected cs;
            run1 = (case deps of None \<Rightarrow> True | Some (c, r) \<Rightarrow> c \<noteq> isConnected);
            run2 = (case deps of None \<Rightarrow> True | Some (c, r) \<Rightarrow> r \<noteq> irc);
            run3 = (deps = None);
            nxt1 = (if run1 \<and> isConnected then cs\<lparr> wasEverConnected := True \<rparr> else cs);
            st2 = (if run2
                   then (case (if previousConnectionState cs = Some True \<and> \<not> irc
                               then handleDisconnect referralCodeFromUrl (w, nxt1)
                               else (w, nxt1)) of
                           (w', nxt') \<Rightarrow> (w', nxt'\<lparr> previousConnectionState := Some irc \<rparr>))
                   else (w, nxt1));
            st3 = (if run3 \<and> irc \<and> pendingSignature cs \<noteq> Some ''pending''
                      \<and> \<not> isTruthy (jwt_token (fst st2))
                   then handleDisconnect referralCodeFromUrl st2
                   else st2)
        in (Some (isConnected, irc), fst st3, snd st3))"

text \<open>
  The component from its first render on, through the successive values of
  \<open>isConnected\<close> it is rendered with (a re-render caused by a queued write repeats
  the value).
\<close>

definition renders ::
  "string option \<Rightarrow> bool list \<Rightarrow> world \<Rightarrow> (bool \<times> bool) option \<times> world \<times> cw_state" where
  "renders referralCodeFromUrl reports w =
     foldl (\<lambda>st c. render_effects referralCodeFromUrl c st) (None, w, cw_initial) reports"

text \<open>
  What holds of the connection tracking after any number of renders that start from
  world \<open>w\<close>: the world is still \<open>w\<close>, and the memory of a connection is set
  whenever the previous connection state, or the last reported \<open>isConnected\<close>, is
  true.
\<close>

definition tracking_inv :: "world \<Rightarrow> (bool \<times> bool) option \<times> world \<times> cw_state \<Rightarrow> bool" where
  "tracking_inv w st =
     (case st of (deps, w', cs) \<Rightarrow>
        w' = w
        \<and> (previousConnectionState cs = Some True \<longrightarrow> wasEverConnected cs)
        \<and> (\<forall>r. deps = Some (True, r) \<longrightarrow> wasEverConnected cs))"

subsection \<open>Registration with an invite code\<close>

text \<open>
  The UTF-8 encodings of the code points that \<open>String.prototype.trim\<close> strips: the
  white space U+0009, U+000B, U+000C, U+0020, U+00A0, U+FEFF and the other space
  separators U+1680, U+2000 to U+200A, U+202F, U+205F, U+3000, and the line
  terminators U+000A, U+000D, U+2028, U+2029.
\<close>

definition whitespaceCodes :: "string list" where
  "whitespaceCodes =
     [[CHR 0x09], [CHR 0x0A], [CHR 0x0B], [CHR 0x0C], [CHR 0x0D], [CHR 0x20],
      [CHR 0xC2, CHR 0xA0], [CHR 0xE1, CHR 0x9A, CHR 0x80],
      [CHR 0xE2, CHR 0x80, CHR 0x80], [CHR 0xE2, CHR 0x80, CHR 0x81],
      [CHR 0xE2, CHR 0x80, CHR 0x82], [CHR 0xE2, CHR 0x80, CHR 0x83],
      [CHR 0xE2, CHR 0x80, CHR 0x84], [CHR 0xE2, CHR 0x80, CHR 0x85],
      [CHR 0xE2, CHR 0x80, CHR 0x86], [CHR 0xE2, CHR 0x80, CHR 0x87],
      [CHR 0xE2, CHR 0x80, CHR 0x88], [CHR 0xE2, CHR 0x80, CHR 0x89],
      [CHR 0xE2, CHR 0x80, CHR 0x8A], [CHR 0xE2, CHR 0x80, CHR 0xA8],
      [CHR 0xE2, CHR 0x80, CHR 0xA9], [CHR 0xE2, CHR 0x80, CHR 0xAF],
      [CHR 0xE2, CHR 0x81, CHR 0x9F], [CHR 0xE3, CHR 0x80, CHR 0x80],
      [CHR 0xEF, CHR 0xBB, CHR 0xBF]]"

text \<open>
  The number of bytes of the code in \<open>codes\<close> that \<open>s\<close> starts with, 0 when it
  starts with none.
\<close>

definition leadingCode :: "string list \<Rightarrow> string \<Rightarrow> nat" where
  "leadingCode codes s =
     (case filter (\<lambda>c. c \<noteq> [] \<and> take (length c) s = c) codes of
        [] \<Rightarrow> 0
      | c # other \<Rightarrow> length c)"

function stripLeading :: "string list \<Rightarrow> string \<Rightarrow> string" where
  "stripLeading codes s =
     (if leadingCode codes s = 0 then s
      else stripLeading codes (drop (leadingCode codes s) s))"
  by pat_completeness auto
termination
proof (relation "measure (\<lambda>(codes, s). length s)")
  show "wf (measure (\<lambda>(codes, s). length s))"
    by simp
next
  fix codes :: "string list" and s :: string
  assume "leadingCode codes s \<noteq> 0"
  then obtain c other
    where found: "filter (\<lambda>c. c \<noteq> [] \<and> take (length c) s = c) codes = c # other"
      and len: "leadingCode codes s = length c"
    by (auto simp: leadingCode_def split: list.splits)
  have "c \<in> set (filter (\<lambda>c. c \<noteq> [] \<and> take (length c) s = c) codes)"
    using found by simp
  then have "c \<noteq> []" and "take (length c) s = c"
    by simp_all
  then have "s \<noteq> []" and "0 < length c"
    by auto
  then show "((codes, drop (leadingCode codes s) s), (codes, s))
      \<in> measure (\<lambda>(codes, s). length s)"
    using len by simp
qed

declare stripLeading.simps [simp del]

text \<open>
  \<open>String.prototype.trim\<close>: white space is stripped from the start, and from the
  end by the same scan over the reversed bytes.
\<close>

definition trim :: "string \<Rightarrow> string" where
  "trim s =
     rev (stripLeading (map rev whitespaceCodes)
            (rev (stripLeading whitespaceCodes s)))"

definition welcomeMessage :: "string \<Rightarrow> string" where
  "welcomeMessage address =
     ''Welcome to Helios! Please sign this message to verify your wallet ownership.''
       @ [CHR 0x0A, CHR 0x0A] @ ''Wallet: '' @ address"

text \<open>
  \<open>signMessage\<close>: a failure to obtain the signer is caught and replaced by
  \<open>Failed to sign message\<close>; the promise of the signer's \<open>signMessage\<close> is returned
  without \<open>await\<close>, so its rejection leaves the \<open>try\<close> as it is.
\<close>

definition signMessage :: "env \<Rightarrow> string \<Rightarrow> world \<Rightarrow> (js_thrown + string) \<times> world" where
  "signMessage e address w =
     (case getSigner e of
        Inl err \<Rightarrow> (Inl (Thrown (Error ''Failed to sign message'')), w)
      | Inr u \<Rightarrow>
          (signerSignMessage e (welcomeMessage address),
           w\<lparr> calls := calls w @ [WalletSignMessage (welcomeMessage address)] \<rparr>))"

text \<open>\<open>inviteCode.trim() || referralCodeFromUrl\<close>.\<close>

definition codeToUse :: "string option \<Rightarrow> cw_state \<Rightarrow> string option" where
  "codeToUse referralCodeFromUrl cs =
     (if trim (inviteCode cs) \<noteq> [] then Some (trim (inviteCode cs))
      else referralCodeFromUrl)"

text \<open>
  The \<open>catch (signError)\<close> around the branch that has to sign first, with the value
  it throws on. Its test reads \<open>signError.code\<close>, then calls
  \<open>signError.message?.includes\<close>.
\<close>

definition catch_signError :: "env \<Rightarrow> js_thrown \<Rightarrow> js_thrown" where
  "catch_signError e signError =
     (case signError of
        Nullish \<Rightarrow> Thrown (typeError e ''signError.code'')
      | OddMessage c t \<Rightarrow>
          if c = Some (CodeNum 4001)
          then Thrown (Error ''You declined the signature request. Please try again.'')
          else Thrown (typeError e ''signError.message?.includes'')
      | Thrown err \<Rightarrow>
          if code err = Some (CodeNum 4001) \<or> messageIncludes err ''rejected''
             \<or> messageIncludes err ''denied''
          then Thrown (Error ''You declined the signature request. Please try again.'')
          else signError)"

text \<open>
  The part of \<open>handleRegisterWithInvite\<close> that yields \<open>user\<close>: with no pending
  signature it signs first, then both branches require the CAPTCHA token before they
  call \<open>confirmAccount\<close>. \<open>cs\<close> are the cells the handler reads, \<open>nxt\<close> the queued
  writes.
\<close>

definition register_confirm ::
  "env \<Rightarrow> string \<Rightarrow> cw_state \<Rightarrow> world \<times> cw_state \<Rightarrow> (js_thrown + user option) \<times> world \<times> cw_state" where
  "register_confirm e code_used cs st =
     (case st of (w, nxt) \<Rightarrow>
        (let pw = the (pendingWallet cs) in
         if \<not> isTruthy (pendingSignature cs) \<and> isTruthy (pendingWallet cs)
         then
           (let nxt1 = nxt\<lparr> pendingSignature := Some ''pending'' \<rparr>
            in (case signMessage e pw w of
                  (Inl signError, w1) \<Rightarrow> (Inl (catch_signError e signError), w1, nxt1)
                | (Inr signature, w1) \<Rightarrow>
                    (let nxt2 = nxt1\<lparr> pendingSignature := Some signature \<rparr>
                     in if \<not> isTruthy (hcaptchaToken cs)
                        then (Inl (catch_signError e (Thrown
                                (Error ''Please complete the captcha verification to proceed.''))),
                              w1, nxt2)
                        else
                          (let tok = the (hcaptchaToken cs);
                               w2 = w1\<lparr> calls := calls w1
                                       @ [ConfirmAccount pw signature code_used tok] \<rparr>
                           in (case confirmAccount e pw signature code_used tok of
                                 Inl err \<Rightarrow> (Inl (catch_signError e err), w2, nxt2)
                               | Inr u \<Rightarrow> (Inr u, w2, nxt2))))))
         else
           if \<not> isTruthy (hcaptchaToken cs)
           then (Inl (Thrown (Error ''Please complete the captcha verification.'')), w, nxt)
           else
             (let tok = the (hcaptchaToken cs);
                  sg = the (pendingSignature cs);
                  w1 = w\<lparr> calls := calls w @ [ConfirmAccount pw sg code_used tok] \<rparr>
              in (case confirmAccount e pw sg code_used tok of
                    Inl confirmError \<Rightarrow> (Inl confirmError, w1, nxt)
                  | Inr u \<Rightarrow> (Inr u, w1, nxt)))))"

text \<open>
  The outer \<open>catch (error)\<close> of the handler computes
  \<open>error.message || "Failed to register or confirm account."\<close> for \<open>inviteError\<close>;
  the read raises a \<open>TypeError\<close> on a nullish value.
\<close>

definition registerErrorText :: "env \<Rightarrow> js_thrown \<Rightarrow> js_thrown + js_text" where
  "registerErrorText e thrown =
     (case thrown of
        Nullish \<Rightarrow> Inl (Thrown (typeError e ''error.message''))
      | OddMessage c t \<Rightarrow>
          Inr (if t then NotText else Text ''Failed to register or confirm account.'')
      | Thrown err \<Rightarrow>
          Inr (Text (if isTruthy (message err) then the (message err)
                     else ''Failed to register or confirm account.'')))"

text \<open>
  \<open>handleRegisterWithInvite\<close>; \<open>Inl\<close> is the rejection of the handler's promise,
  after \<open>finally\<close> has cleared \<open>isLoading\<close>. On success it calls \<open>initialize\<close>
  without awaiting it: the store ends as \<open>initialize\<close> leaves it, and a rejection of
  that call reaches no handler.
\<close>

definition handleRegisterWithInvite ::
  "env \<Rightarrow> string option \<Rightarrow> world \<times> cw_state \<Rightarrow> (js_thrown + unit) \<times> world \<times> cw_state" where
  "handleRegisterWithInvite e referralCodeFromUrl st =
     (case st of (w, cs) \<Rightarrow>
        if \<not> isTruthy (codeToUse referralCodeFromUrl cs)
        then (Inr (), w, cs\<lparr> inviteError := Some (Text ''Invite code is required'') \<rparr>)
        else if \<not> isTruthy (pendingWallet cs)
        then (Inr (), w, cs\<lparr> inviteError :=
                 Some (Text ''Authentication error. Please connect your wallet first.'') \<rparr>)
        else
          (case register_confirm e (the (codeToUse referralCodeFromUrl cs)) cs
                  (w, cs\<lparr> isLoading := True, inviteError := None \<rparr>) of
             (Inr (Some u), w1, nxt) \<Rightarrow>
               (Inr (), snd (initialize e (setUser (Some u) w1)),
                nxt\<lparr> needsInviteCode := False, isLoading := False \<rparr>)
           | (r, w1, nxt) \<Rightarrow>
               (case registerErrorText e
                       (case r of Inl thrown \<Rightarrow> thrown
                        | Inr u \<Rightarrow> Thrown (Error ''No user data received from server'')) of
                  Inr txt \<Rightarrow> (Inr (), w1, nxt\<lparr> inviteError := Some txt, isLoading := False \<rparr>)
                | Inl raised \<Rightarrow> (Inl raised, w1, nxt\<lparr> isLoading := False \<rparr>))))"

text \<open>Which calls of the trace are \<open>confirmAccount\<close>.\<close>

fun isConfirmAccount :: "api_call \<Rightarrow> bool" where
  "isConfirmAccount (ConfirmAccount w s c t) = True"
| "isConfirmAccount other = False"

section \<open>Sample inputs\<close>

definition sample_user :: "string \<Rightarrow> user" where
  "sample_user w = \<lparr> wallet = w, referralCode = Some ''HELIOS1'' \<rparr>"

definition sample_env :: "(js_thrown + string option) \<Rightarrow> (js_thrown + progress) \<Rightarrow> env" where
  "sample_env decoded fetched =
     \<lparr> hasWindow = True, decodeToken = (\<lambda>t. decoded),
       getUserProfile = (\<lambda>w. Inr (sample_user w)),
       getOnboardingProgress = fetched, getSigner = Inr (),
       signerSignMessage = (\<lambda>m. Inr ''0xsignature''),
       confirmAccount = (\<lambda>w s c t. Inr (Some (sample_user w))),
       typeErrorMessage = (\<lambda>site. ''Cannot read '' @ site) \<rparr>"

text \<open>An environment whose wallet declines the signature request (code 4001).\<close>

definition declining_env :: env where
  "declining_env =
     (sample_env (Inr (Some ''0xA'')) (Inr \<lparr> completedSteps = StepArray [] \<rparr>))
       \<lparr> signerSignMessage :=
           (\<lambda>m. Inl (Thrown ((Error ''User rejected the request.'')
                               \<lparr> code := Some (CodeNum 4001) \<rparr>))) \<rparr>"

definition sample_world :: world where
  "sample_world = \<lparr> step = StepNum 5, xp = 10, user = None, isUserLoading = False,
       onboardingProgress = None, requiresBotVerification = False,
       jwt_token = Some ''h.p.s'', calls = [] \<rparr>"

definition steps_progress :: "string list \<Rightarrow> progress" where
  "steps_progress cs = \<lparr> completedSteps = StepArray cs \<rparr>"

definition sample_session :: world where
  "sample_session = \<lparr> step = StepNum 5, xp = 10, user = Some (sample_user ''0xA''),
       isUserLoading = False,
       onboardingProgress = Some (steps_progress [''add_helios_network'', ''claim_from_faucet'']),
       requiresBotVerification = False, jwt_token = Some ''h.p.s'', calls = [] \<rparr>"

section \<open>Facts about \<open>initialize\<close>\<close>

lemma isNotConfirmed_confirmationError: "isNotConfirmed confirmationError"
  by (simp add: isNotConfirmed_def confirmationError_def Error_def)

lemma fetchUser_frame:
  "step (fetchUser e w) = step w"
  "jwt_token (fetchUser e w) = jwt_token w"
  "requiresBotVerification (fetchUser e w) = requiresBotVerification w"
  "onboardingProgress (fetchUser e w) = onboardingProgress w"
  by (simp_all add: fetchUser_def Let_def split: option.splits sum.splits)

lemma initialize_try_frame:
  "jwt_token (snd (initialize_try e t w)) = jwt_token w"
  "requiresBotVerification (snd (initialize_try e t w)) = requiresBotVerification w"
  by (simp_all add: initialize_try_def Let_def fetchUser_frame
      split: sum.splits js_steps.splits)

lemma initialize_try_raise_step:
  "fst (initialize_try e t w) = Inl x \<Longrightarrow> step (snd (initialize_try e t w)) = step w"
  by (simp add: initialize_try_def Let_def fetchUser_frame
      split: sum.splits js_steps.splits if_splits)

lemma initialize_try_outcome_indep:
  "fst (initialize_try e t w) = fst (initialize_try e t w')"
  by (simp add: initialize_try_def Let_def split: sum.splits js_steps.splits)

lemma initialize_try_step_indep:
  "fst (initialize_try e t w) = Inr u \<Longrightarrow>
     step (snd (initialize_try e t w)) = step (snd (initialize_try e t w'))"
  by (simp add: initialize_try_def Let_def split: sum.splits js_steps.splits if_splits)

lemma initialize_ok:
  assumes "hasWindow e" and "jwt_token w = Some token" and "token \<noteq> []"
    and "fst (initialize_try e token (w\<lparr> isUserLoading := True \<rparr>)) = Inr u"
  shows "initialize e w = (Inr (), snd (initialize_try e token (w\<lparr> isUserLoading := True \<rparr>)))"
  using assms by (cases "initialize_try e token (w\<lparr> isUserLoading := True \<rparr>)")
    (simp add: initialize_def isTruthy_def)

lemma typeError_plain:
  "\<not> dataRequiresBotVerification (typeError e site)"
  by (simp add: typeError_def Error_def)

lemma initialize_classified_not_confirmed:
  assumes "hasWindow e" and "jwt_token w = Some token" and "token \<noteq> []"
    and "fst (initialize_try e token (w\<lparr> isUserLoading := True \<rparr>)) = Inl x"
    and "isNotConfirmed (classified e x)"
  shows "fst (initialize e w) = Inl (Thrown confirmationError)"
    and "jwt_token (snd (initialize e w)) = None"
    and "step (snd (initialize e w)) = StepNum 0"
    and "isUserLoading (snd (initialize e w)) = False"
    and "requiresBotVerification (snd (initialize e w)) = requiresBotVerification w"
  using assms initialize_try_frame(2) [of e token "w\<lparr> isUserLoading := True \<rparr>"]
  by (cases "initialize_try e token (w\<lparr> isUserLoading := True \<rparr>)"; cases x;
      simp add: initialize_def isTruthy_def initialize_catch_progress_def
        initialize_catch_def classified_def isNotConfirmed_confirmationError)+

lemma initialize_classified_bot:
  assumes "hasWindow e" and "jwt_token w = Some token" and "token \<noteq> []"
    and "fst (initialize_try e token (w\<lparr> isUserLoading := True \<rparr>)) = Inl x"
    and "\<not> isNotConfirmed (classified e x)"
    and "dataRequiresBotVerification (classified e x)"
  shows "fst (initialize e w) = Inr ()"
    and "requiresBotVerification (snd (initialize e w)) = True"
    and "jwt_token (snd (initialize e w)) = Some token"
    and "step (snd (initialize e w)) = step w"
  using assms initialize_try_frame(1) [of e token "w\<lparr> isUserLoading := True \<rparr>"]
    initialize_try_raise_step [of e token "w\<lparr> isUserLoading := True \<rparr>" x]
  by (cases "initialize_try e token (w\<lparr> isUserLoading := True \<rparr>)"; cases x;
      simp add: initialize_def isTruthy_def initialize_catch_progress_def
        initialize_catch_def classified_def typeError_plain)+

lemma initialize_classified_other:
  assumes "hasWindow e" and "jwt_token w = Some token" and "token \<noteq> []"
    and "fst (initialize_try e token (w\<lparr> isUserLoading := True \<rparr>)) = Inl x"
    and "\<not> isNotConfirmed (classified e x)"
    and "\<not> dataRequiresBotVerification (classified e x)"
  shows "fst (initialize e w) = Inr ()"
    and "step (snd (initialize e w)) = StepNum 0"
    and "isUserLoading (snd (initialize e w)) = False"
    and "requiresBotVerification (snd (initialize e w)) = requiresBotVerification w"
    and "jwt_token (snd (initialize e w))
           = (case x of Thrown err \<Rightarrow> None | Nullish \<Rightarrow> Some token
              | OddMessage c t \<Rightarrow> Some token)"
  using assms initialize_try_frame [of e token "w\<lparr> isUserLoading := True \<rparr>"]
  by (cases "initialize_try e token (w\<lparr> isUserLoading := True \<rparr>)"; cases x;
      simp add: initialize_def isTruthy_def initialize_catch_progress_def
        initialize_catch_def classified_def typeError_plain)+

lemma initialize_try_progress_error:
  assumes "decodeToken e token = Inr dw" and "getOnboardingProgress e = Inl x"
  shows "fst (initialize_try e token w) = Inl x"
  using assms by (simp add: initialize_try_def Let_def)

lemma initialize_success:
  assumes "hasWindow e" and "jwt_token w = Some token" and "token \<noteq> []"
    and "decodeToken e token = Inr dw"
    and "getOnboardingProgress e = Inr p" and "completedSteps p = StepArray cs"
  shows "fst (initialize e w) = Inr ()"
    and "step (snd (initialize e w)) =
           (if length cs \<ge> 3 then StepNum 7
            else if length cs > 0 then nextStep (last cs) else StepNum 2)"
    and "jwt_token (snd (initialize e w)) = Some token"
  using assms
  by (simp_all add: initialize_def initialize_try_def isTruthy_def Let_def fetchUser_def
      split: option.splits sum.splits)

lemma initialize_no_token:
  assumes "hasWindow e" and "\<not> isTruthy (jwt_token w)"
  shows "initialize e w = (Inr (), w\<lparr> step := StepNum 0 \<rparr>)"
  using assms by (simp add: initialize_def)

section \<open>Step derivation\<close>

text \<open>
  C1. When a token is stored and the progress record is fetched, \<open>initialize\<close>
  returns normally and the step depends on \<open>completedSteps\<close> alone: 7 when it has
  three or more elements, whatever they are; 2 when it is empty; and with one or two
  elements, 4, 5 or 6 when the last one is \<open>add_helios_network\<close>,
  \<open>claim_from_faucet\<close> or \<open>mint_early_bird_nft\<close>.
\<close>

theorem C1_step_from_progress:
  assumes "hasWindow e" and "jwt_token w = Some token" and "token \<noteq> []"
    and "decodeToken e token = Inr dw"
    and "getOnboardingProgress e = Inr p" and "completedSteps p = StepArray cs"
  shows "fst (initialize e w) = Inr () \<and>
    (length cs \<ge> 3 \<longrightarrow> step (snd (initialize e w)) = StepNum 7) \<and>
    (cs = [] \<longrightarrow> step (snd (initialize e w)) = StepNum 2) \<and>
    (cs \<noteq> [] \<and> length cs < 3 \<and> last cs = ''add_helios_network''
       \<longrightarrow> step (snd (initialize e w)) = StepNum 4) \<and>
    (cs \<noteq> [] \<and> length cs < 3 \<and> last cs = ''claim_from_faucet''
       \<longrightarrow> step (snd (initialize e w)) = StepNum 5) \<and>
    (cs \<noteq> [] \<and> length cs < 3 \<and> last cs = ''mint_early_bird_nft''
       \<longrightarrow> step (snd (initialize e w)) = StepNum 6)"
  using initialize_success(1,2) [OF assms]
  by (simp add: nextStep_def stepMapping_def)

theorem C1_step_from_progress_witness:
  "hasWindow (sample_env (Inr None) (Inr (steps_progress [''x'', ''claim_from_faucet''])))
   \<and> jwt_token sample_world = Some ''h.p.s''
   \<and> step (snd (initialize
        (sample_env (Inr None) (Inr (steps_progress [''x'', ''claim_from_faucet''])))
        sample_world)) = StepNum 5"
  using C1_step_from_progress [of
      "sample_env (Inr None) (Inr (steps_progress [''x'', ''claim_from_faucet'']))"
      sample_world "''h.p.s''" None "steps_progress [''x'', ''claim_from_faucet'']"
      "[''x'', ''claim_from_faucet'']"]
  by (simp add: sample_env_def sample_world_def steps_progress_def)

text \<open>
  C2, as stated, at the scenario's input: the token decodes to wallet \<open>0xA\<close> and the
  progress is \<open>[add_helios_network, claim_from_faucet]\<close>; the step that results is
  not 6.
\<close>

theorem C2_scenario_counterexample:
  "hasWindow (sample_env (Inr (Some ''0xA''))
       (Inr (steps_progress [''add_helios_network'', ''claim_from_faucet''])))
   \<and> jwt_token sample_world = Some ''h.p.s''
   \<and> decodeToken (sample_env (Inr (Some ''0xA''))
       (Inr (steps_progress [''add_helios_network'', ''claim_from_faucet'']))) ''h.p.s''
       = Inr (Some ''0xA'')
   \<and> getOnboardingProgress (sample_env (Inr (Some ''0xA''))
       (Inr (steps_progress [''add_helios_network'', ''claim_from_faucet''])))
       = Inr \<lparr> completedSteps = StepArray [''add_helios_network'', ''claim_from_faucet''] \<rparr>
   \<and> step (snd (initialize (sample_env (Inr (Some ''0xA''))
          (Inr (steps_progress [''add_helios_network'', ''claim_from_faucet''])))
        sample_world)) \<noteq> StepNum 6"
  by (simp add: sample_env_def sample_world_def steps_progress_def initialize_def
      initialize_try_def isTruthy_def Let_def fetchUser_def stubUser_def nextStep_def
      stepMapping_def)

text \<open>
  C2, amended. In that scenario \<open>initialize\<close> returns normally with step 5 (the
  successor of the table's entry 4 for \<open>claim_from_faucet\<close>); the profile of wallet
  \<open>0xA\<close> is requested, then the progress, and the user that remains is the fetched
  profile, or the temporary user of wallet \<open>0xA\<close> when that request fails.
\<close>

theorem C2_scenario:
  assumes "hasWindow e" and "jwt_token w = Some token" and "token \<noteq> []"
    and "decodeToken e token = Inr (Some ''0xA'')"
    and "getOnboardingProgress e = Inr p"
    and "completedSteps p = StepArray [''add_helios_network'', ''claim_from_faucet'']"
  shows "fst (initialize e w) = Inr ()
    \<and> step (snd (initialize e w)) = StepNum 5
    \<and> calls (snd (initialize e w)) = calls w @ [GetUserProfile ''0xA'', GetOnboardingProgress]
    \<and> user (snd (initialize e w)) =
        (case getUserProfile e ''0xA'' of
           Inr profile \<Rightarrow> Some profile
         | Inl err \<Rightarrow> Some (stubUser ''0xA''))"
  using assms
  by (simp add: initialize_def initialize_try_def isTruthy_def Let_def fetchUser_def
      stubUser_def nextStep_def stepMapping_def split: sum.splits)

theorem C2_scenario_witness:
  "fst (initialize (sample_env (Inr (Some ''0xA''))
          (Inr (steps_progress [''add_helios_network'', ''claim_from_faucet''])))
        sample_world) = Inr ()
   \<and> step (snd (initialize (sample_env (Inr (Some ''0xA''))
          (Inr (steps_progress [''add_helios_network'', ''claim_from_faucet''])))
        sample_world)) = StepNum 5
   \<and> user (snd (initialize (sample_env (Inr (Some ''0xA''))
          (Inr (steps_progress [''add_helios_network'', ''claim_from_faucet''])))
        sample_world)) = Some (sample_user ''0xA'')"
  using C2_scenario [of
      "sample_env (Inr (Some ''0xA''))
         (Inr (steps_progress [''add_helios_network'', ''claim_from_faucet'']))"
      sample_world "''h.p.s''"
      "steps_progress [''add_helios_network'', ''claim_from_faucet'']"]
  by (simp add: sample_env_def sample_world_def steps_progress_def)

section \<open>Classified failures\<close>

text \<open>
  C3. When the progress request fails with an error that is not an account-not-confirmed
  error and carries \<open>requiresBotVerification\<close> in its response data, \<open>initialize\<close>
  returns normally, \<open>requiresBotVerification\<close> is true, the stored token is still
  there, and the step is the one from before the call.
\<close>

theorem C3_bot_verification_gate:
  assumes "hasWindow e" and "jwt_token w = Some token" and "token \<noteq> []"
    and "decodeToken e token = Inr dw"
    and "getOnboardingProgress e = Inl (Thrown err)"
    and "\<not> isNotConfirmed err" and "dataRequiresBotVerification err"
  shows "fst (initialize e w) = Inr ()
    \<and> requiresBotVerification (snd (initialize e w))
    \<and> jwt_token (snd (initialize e w)) = Some token
    \<and> step (snd (initialize e w)) = step w"
proof -
  have raised: "fst (initialize_try e token (w\<lparr> isUserLoading := True \<rparr>)) = Inl (Thrown err)"
    using assms(4,5) by (rule initialize_try_progress_error)
  show ?thesis
    using initialize_classified_bot [OF assms(1-3) raised] assms(6,7)
    by (simp add: classified_def)
qed

theorem C3_bot_verification_gate_witness:
  "\<not> isNotConfirmed ((Error ''Verification required'')\<lparr> dataRequiresBotVerification := True \<rparr>)
   \<and> fst (initialize (sample_env (Inr (Some ''0xA''))
            (Inl (Thrown ((Error ''Verification required'')
                    \<lparr> dataRequiresBotVerification := True \<rparr>))))
          sample_world) = Inr ()
   \<and> jwt_token (snd (initialize (sample_env (Inr (Some ''0xA''))
            (Inl (Thrown ((Error ''Verification required'')
                    \<lparr> dataRequiresBotVerification := True \<rparr>))))
          sample_world)) = Some ''h.p.s''
   \<and> step (snd (initialize (sample_env (Inr (Some ''0xA''))
            (Inl (Thrown ((Error ''Verification required'')
                    \<lparr> dataRequiresBotVerification := True \<rparr>))))
          sample_world)) = StepNum 5"
  using C3_bot_verification_gate [of
      "sample_env (Inr (Some ''0xA''))
         (Inl (Thrown ((Error ''Verification required'')\<lparr> dataRequiresBotVerification := True \<rparr>)))"
      sample_world "''h.p.s''" "Some ''0xA''"
      "(Error ''Verification required'')\<lparr> dataRequiresBotVerification := True \<rparr>"]
  by (simp add: sample_env_def sample_world_def isNotConfirmed_def messageIncludes_def Error_def)

text \<open>
  C4. Whatever error the fetch phase of \<open>initialize\<close> raises (from decoding the token
  or from the progress request), if its message contains \<open>not confirmed\<close>, or its
  response status is 403, or it carries \<open>requiresInviteCode\<close>, then \<open>initialize\<close>
  removes the stored token, sets the step to 0 and rejects with a new error that is
  tagged \<open>requiresInviteCode\<close>.
\<close>

theorem C4_not_confirmed:
  assumes "hasWindow e" and "jwt_token w = Some token" and "token \<noteq> []"
    and "fst (initialize_try e token (w\<lparr> isUserLoading := True \<rparr>)) = Inl (Thrown err)"
    and "isNotConfirmed err"
  shows "jwt_token (snd (initialize e w)) = None
    \<and> step (snd (initialize e w)) = StepNum 0
    \<and> fst (initialize e w) = Inl (Thrown confirmationError)
    \<and> requiresInviteCode confirmationError"
  using initialize_classified_not_confirmed(1-3) [OF assms(1-4)] assms(5)
  by (simp add: classified_def confirmationError_def)

theorem C4_not_confirmed_witness:
  "fst (initialize_try
          (sample_env (Inr (Some ''0xA''))
             (Inl (Thrown ((Error ''Forbidden'')\<lparr> status := Some 403 \<rparr>))))
          ''h.p.s'' (sample_world\<lparr> isUserLoading := True \<rparr>))
     = Inl (Thrown ((Error ''Forbidden'')\<lparr> status := Some 403 \<rparr>))
   \<and> isNotConfirmed ((Error ''Forbidden'')\<lparr> status := Some 403 \<rparr>)
   \<and> jwt_token (snd (initialize
         (sample_env (Inr (Some ''0xA''))
            (Inl (Thrown ((Error ''Forbidden'')\<lparr> status := Some 403 \<rparr>))))
         sample_world)) = None
   \<and> step (snd (initialize
         (sample_env (Inr (Some ''0xA''))
            (Inl (Thrown ((Error ''Forbidden'')\<lparr> status := Some 403 \<rparr>))))
         sample_world)) = StepNum 0"
  using C4_not_confirmed [of
      "sample_env (Inr (Some ''0xA''))
         (Inl (Thrown ((Error ''Forbidden'')\<lparr> status := Some 403 \<rparr>)))"
      sample_world "''h.p.s''" "(Error ''Forbidden'')\<lparr> status := Some 403 \<rparr>"]
  by (simp add: sample_env_def sample_world_def isNotConfirmed_def initialize_try_def Let_def)

text \<open>
  C10. The account-not-confirmed test comes first: when the progress request fails
  with an error that meets it and also carries \<open>requiresBotVerification\<close> in its
  response data, \<open>initialize\<close> removes the token, sets the step to 0 and rejects with
  the confirmation error; \<open>requiresBotVerification\<close> keeps the value it had.
\<close>

theorem C10_not_confirmed_first:
  assumes "hasWindow e" and "jwt_token w = Some token" and "token \<noteq> []"
    and "decodeToken e token = Inr dw"
    and "getOnboardingProgress e = Inl (Thrown err)"
    and "isNotConfirmed err" and "dataRequiresBotVerification err"
  shows "jwt_token (snd (initialize e w)) = None
    \<and> step (snd (initialize e w)) = StepNum 0
    \<and> requiresBotVerification (snd (initialize e w)) = requiresBotVerification w
    \<and> fst (initialize e w) = Inl (Thrown confirmationError)"
proof -
  have raised: "fst (initialize_try e token (w\<lparr> isUserLoading := True \<rparr>)) = Inl (Thrown err)"
    using assms(4,5) by (rule initialize_try_progress_error)
  show ?thesis
    using initialize_classified_not_confirmed(1,2,3,5) [OF assms(1-3) raised] assms(6)
    by (simp add: classified_def)
qed

theorem C10_not_confirmed_first_witness:
  "isNotConfirmed ((Error ''Forbidden'')\<lparr> status := Some 403, dataRequiresBotVerification := True \<rparr>)
   \<and> dataRequiresBotVerification
        ((Error ''Forbidden'')\<lparr> status := Some 403, dataRequiresBotVerification := True \<rparr>)
   \<and> jwt_token (snd (initialize (sample_env (Inr (Some ''0xA''))
          (Inl (Thrown ((Error ''Forbidden'')
                  \<lparr> status := Some 403, dataRequiresBotVerification := True \<rparr>))))
        sample_world)) = None
   \<and> requiresBotVerification (snd (initialize (sample_env (Inr (Some ''0xA''))
          (Inl (Thrown ((Error ''Forbidden'')
                  \<lparr> status := Some 403, dataRequiresBotVerification := True \<rparr>))))
        sample_world)) = False"
  using C10_not_confirmed_first [of
      "sample_env (Inr (Some ''0xA''))
         (Inl (Thrown ((Error ''Forbidden'')
                 \<lparr> status := Some 403, dataRequiresBotVerification := True \<rparr>)))"
      sample_world "''h.p.s''" "Some ''0xA''"
      "(Error ''Forbidden'')\<lparr> status := Some 403, dataRequiresBotVerification := True \<rparr>"]
  by (simp add: sample_env_def sample_world_def isNotConfirmed_def)

text \<open>
  C5, as stated, at a progress request that fails with a plain \<open>Network Error\<close>: the
  error is raised in the fetch phase and is neither an account-not-confirmed nor a
  bot-verification error, yet \<open>initialize\<close> returns normally.
\<close>

theorem C5_other_error_counterexample:
  "fst (initialize_try
          (sample_env (Inr (Some ''0xA'')) (Inl (Thrown (Error ''Network Error''))))
          ''h.p.s'' (sample_world\<lparr> isUserLoading := True \<rparr>))
     = Inl (Thrown (Error ''Network Error''))
   \<and> \<not> isNotConfirmed (Error ''Network Error'')
   \<and> \<not> dataRequiresBotVerification (Error ''Network Error'')
   \<and> fst (initialize
          (sample_env (Inr (Some ''0xA'')) (Inl (Thrown (Error ''Network Error''))))
          sample_world) = Inr ()"
  by (simp add: sample_env_def sample_world_def initialize_def initialize_try_def
      initialize_catch_progress_def initialize_catch_def isTruthy_def isNotConfirmed_def
      messageIncludes_def Error_def Let_def)

text \<open>
  C5, amended. Let \<open>x\<close> be what the fetch phase of \<open>initialize\<close> throws, from decoding
  the token or from the progress request, and let the error classified be \<open>x\<close>
  itself or, when \<open>x\<close> is \<open>null\<close>, \<open>undefined\<close> or has a message that is not a
  string, the \<open>TypeError\<close> that the classification raises on it. If that error is an
  account-not-confirmed error, \<open>initialize\<close> rejects (with the confirmation error)
  after \<open>isUserLoading\<close> has been set to false. If it is a bot-verification error,
  \<open>initialize\<close> returns normally. Every other error is absorbed by the outer
  handler: \<open>isUserLoading\<close> is set to false, the step to 0, and \<open>initialize\<close>
  returns normally.
\<close>

theorem C5_error_outcomes:
  assumes "hasWindow e" and "jwt_token w = Some token" and "token \<noteq> []"
    and "fst (initialize_try e token (w\<lparr> isUserLoading := True \<rparr>)) = Inl x"
  shows "(isNotConfirmed (classified e x) \<longrightarrow>
            fst (initialize e w) = Inl (Thrown confirmationError)
            \<and> isUserLoading (snd (initialize e w)) = False)
    \<and> (\<not> isNotConfirmed (classified e x) \<and> dataRequiresBotVerification (classified e x) \<longrightarrow>
            fst (initialize e w) = Inr ())
    \<and> (\<not> isNotConfirmed (classified e x) \<and> \<not> dataRequiresBotVerification (classified e x) \<longrightarrow>
            fst (initialize e w) = Inr ()
            \<and> isUserLoading (snd (initialize e w)) = False
            \<and> step (snd (initialize e w)) = StepNum 0)"
  using initialize_classified_not_confirmed(1,4) [OF assms]
    initialize_classified_bot(1) [OF assms]
    initialize_classified_other(1-3) [OF assms]
  by blast

theorem C5_error_outcomes_witness:
  "fst (initialize_try (sample_env (Inr (Some ''0xA'')) (Inl Nullish))
         ''h.p.s'' (sample_world\<lparr> isUserLoading := True \<rparr>)) = Inl Nullish
   \<and> \<not> isNotConfirmed (classified (sample_env (Inr (Some ''0xA'')) (Inl Nullish)) Nullish)
   \<and> fst (initialize (sample_env (Inr (Some ''0xA'')) (Inl Nullish)) sample_world) = Inr ()
   \<and> step (snd (initialize (sample_env (Inr (Some ''0xA'')) (Inl Nullish)) sample_world))
       = StepNum 0
   \<and> isUserLoading (snd (initialize (sample_env (Inr (Some ''0xA'')) (Inl Nullish))
       sample_world)) = False
   \<and> jwt_token (snd (initialize (sample_env (Inr (Some ''0xA'')) (Inl Nullish))
       sample_world)) = Some ''h.p.s''"
  using C5_error_outcomes [of "sample_env (Inr (Some ''0xA'')) (Inl Nullish)"
      sample_world "''h.p.s''" Nullish]
  by (simp add: sample_env_def sample_world_def isNotConfirmed_def messageIncludes_def
      initialize_try_def Error_def Let_def classified_def typeError_def initialize_def
      initialize_catch_progress_def initialize_catch_def isTruthy_def fetchUser_frame)

section \<open>Unknown step names\<close>

text \<open>
  C9, as stated, at two progress records whose last element is none of the three
  names of the table: with three elements the step is 7, and with the single element
  \<open>constructor\<close>, which every object literal inherits, the lookup is not
  \<open>undefined\<close> and the step is a string, not \<open>NaN\<close>.
\<close>

theorem C9_unknown_step_counterexample:
  "last [''x'', ''y'', ''z''] \<notin> {''add_helios_network'', ''claim_from_faucet'', ''mint_early_bird_nft''}
   \<and> step (snd (initialize (sample_env (Inr None) (Inr (steps_progress [''x'', ''y'', ''z''])))
         sample_world)) = StepNum 7
   \<and> last [''constructor'']
        \<notin> {''add_helios_network'', ''claim_from_faucet'', ''mint_early_bird_nft''}
   \<and> step (snd (initialize (sample_env (Inr None) (Inr (steps_progress [''constructor''])))
         sample_world)) = StepConcat ''constructor''"
  by (simp add: sample_env_def sample_world_def steps_progress_def initialize_def
      initialize_try_def isTruthy_def Let_def nextStep_def stepMapping_def
      objectPrototypeKeys_def)

text \<open>
  C9, amended. When \<open>completedSteps\<close> has one or two elements and the last one is
  neither one of the three names of the table nor a property name inherited from
  \<open>Object.prototype\<close>, \<open>initialize\<close> returns normally and the step is \<open>NaN\<close>,
  a value outside the range 0 to 7.
\<close>

theorem C9_unknown_step:
  assumes "hasWindow e" and "jwt_token w = Some token" and "token \<noteq> []"
    and "decodeToken e token = Inr dw"
    and "getOnboardingProgress e = Inr p" and "completedSteps p = StepArray cs"
    and "cs \<noteq> []" and "length cs < 3"
    and "last cs \<notin> {''add_helios_network'', ''claim_from_faucet'', ''mint_early_bird_nft''}"
    and "last cs \<notin> set objectPrototypeKeys"
  shows "fst (initialize e w) = Inr () \<and> step (snd (initialize e w)) = StepNaN"
  using initialize_success(1,2) [OF assms(1-6)] assms(7-10)
  by (simp add: nextStep_def stepMapping_def)

theorem C9_unknown_step_witness:
  "''bridge_tokens'' \<notin> {''add_helios_network'', ''claim_from_faucet'', ''mint_early_bird_nft''}
   \<and> ''bridge_tokens'' \<notin> set objectPrototypeKeys
   \<and> fst (initialize (sample_env (Inr None) (Inr (steps_progress [''bridge_tokens''])))
         sample_world) = Inr ()
   \<and> step (snd (initialize (sample_env (Inr None) (Inr (steps_progress [''bridge_tokens''])))
         sample_world)) = StepNaN"
  using C9_unknown_step [of
      "sample_env (Inr None) (Inr (steps_progress [''bridge_tokens'']))" sample_world
      "''h.p.s''" None "steps_progress [''bridge_tokens'']" "[''bridge_tokens'']"]
  by (simp add: sample_env_def sample_world_def steps_progress_def objectPrototypeKeys_def)

section \<open>Idempotence\<close>

text \<open>
  C7. With the same environment, a second call of \<open>initialize\<close> right after the
  first one leaves the step that the first call left.
\<close>

theorem C7_idempotent_step:
  "step (snd (initialize e (snd (initialize e w)))) = step (snd (initialize e w))"
proof (cases "hasWindow e")
  case False
  then show ?thesis by (simp add: initialize_def)
next
  case window: True
  show ?thesis
  proof (cases "isTruthy (jwt_token w)")
    case False
    then show ?thesis using window by (simp add: initialize_no_token)
  next
    case True
    then obtain token where tok: "jwt_token w = Some token" "token \<noteq> []"
      by (auto simp: isTruthy_def split: option.splits)
    let ?w' = "snd (initialize e w)"
    show ?thesis
    proof (cases "fst (initialize_try e token (w\<lparr> isUserLoading := True \<rparr>))")
      case (Inr u)
      let ?w1 = "snd (initialize_try e token (w\<lparr> isUserLoading := True \<rparr>))"
      have first: "initialize e w = (Inr (), ?w1)"
        using window tok Inr by (rule initialize_ok)
      have tok1: "jwt_token ?w1 = Some token"
        using tok by (simp add: initialize_try_frame)
      have "fst (initialize_try e token (?w1\<lparr> isUserLoading := True \<rparr>)) = Inr u"
        using Inr initialize_try_outcome_indep by metis
      then have second: "initialize e ?w1
          = (Inr (), snd (initialize_try e token (?w1\<lparr> isUserLoading := True \<rparr>)))"
        using window tok1 tok(2) by (intro initialize_ok)
      have "step (snd (initialize_try e token (?w1\<lparr> isUserLoading := True \<rparr>))) = step ?w1"
        using initialize_try_step_indep [OF Inr, of "?w1\<lparr> isUserLoading := True \<rparr>"] by simp
      then show ?thesis
        by (simp add: first second)
    next
      case (Inl x)
      have again: "fst (initialize_try e token (w2\<lparr> isUserLoading := True \<rparr>)) = Inl x" for w2
        using Inl initialize_try_outcome_indep by metis
      consider (confirm) "isNotConfirmed (classified e x)"
        | (bot) "\<not> isNotConfirmed (classified e x)" "dataRequiresBotVerification (classified e x)"
        | (other) "\<not> isNotConfirmed (classified e x)"
            "\<not> dataRequiresBotVerification (classified e x)"
        by blast
      then show ?thesis
      proof cases
        case confirm
        then have "jwt_token ?w' = None" and "step ?w' = StepNum 0"
          using initialize_classified_not_confirmed(2,3) [OF window tok Inl] by simp_all
        then show ?thesis
          using window by (simp add: initialize_no_token isTruthy_def)
      next
        case bot
        have tok': "jwt_token ?w' = Some token"
          using initialize_classified_bot(3) [OF window tok Inl bot] .
        show ?thesis
          using initialize_classified_bot(4) [OF window tok' tok(2) again bot] by simp
      next
        case other
        have zero: "step ?w' = StepNum 0"
          using initialize_classified_other(2) [OF window tok Inl other] .
        show ?thesis
        proof (cases "jwt_token ?w' = Some token")
          case True
          show ?thesis
            using initialize_classified_other(2) [OF window True tok(2) again other] zero
            by simp
        next
          case False
          then have "jwt_token ?w' = None"
            using initialize_classified_other(5) [OF window tok Inl other]
            by (cases x) simp_all
          then show ?thesis
            using window zero by (simp add: initialize_no_token isTruthy_def)
        qed
      qed
    qed
  qed
qed

theorem C7_idempotent_step_witness:
  "step (snd (initialize (sample_env (Inr (Some ''0xA'')) (Inr (steps_progress [''add_helios_network''])))
      (snd (initialize (sample_env (Inr (Some ''0xA'')) (Inr (steps_progress [''add_helios_network''])))
         sample_world)))) = StepNum 4"
  using C7_idempotent_step [of
      "sample_env (Inr (Some ''0xA'')) (Inr (steps_progress [''add_helios_network'']))" sample_world]
    initialize_success(2) [of
      "sample_env (Inr (Some ''0xA'')) (Inr (steps_progress [''add_helios_network'']))" sample_world
      "''h.p.s''" "Some ''0xA''" "steps_progress [''add_helios_network'']" "[''add_helios_network'']"]
  by (simp add: sample_env_def sample_world_def steps_progress_def nextStep_def stepMapping_def)

section \<open>Disconnection\<close>

lemma handleDisconnect_resets:
  "jwt_token (fst (handleDisconnect r (w, cs))) = None"
  "user (fst (handleDisconnect r (w, cs))) = None"
  "onboardingProgress (fst (handleDisconnect r (w, cs))) = None"
  "requiresBotVerification (fst (handleDisconnect r (w, cs))) = False"
  "step (fst (handleDisconnect r (w, cs))) = StepNum 0"
  by (simp_all add: handleDisconnect_def setStep_def setUser_def resetStore_def)

lemma render_effects_inv:
  assumes "isTruthy (jwt_token w)" and "tracking_inv w st"
  shows "tracking_inv w (render_effects r c st)"
  using assms
  by (cases st) (auto simp: tracking_inv_def render_effects_def isReallyConnected_def Let_def
      split: option.splits prod.splits if_splits)

lemma renders_inv:
  assumes "isTruthy (jwt_token w)"
  shows "tracking_inv w (renders r reports w)"
proof (induction reports rule: rev_induct)
  case Nil
  show ?case by (simp add: renders_def tracking_inv_def cw_initial_def)
next
  case (snoc c reports)
  then show ?case
    using render_effects_inv [OF assms, of "renders r reports w" r c]
    by (simp add: renders_def)
qed

lemma renders_keep_session:
  assumes "isTruthy (jwt_token w)"
  shows "fst (snd (renders r reports w)) = w"
  using renders_inv [OF assms, of r reports]
  by (cases "renders r reports w") (simp add: tracking_inv_def)

text \<open>
  C6, on the code: the component is first rendered with a connected wallet, while a
  session exists (token stored, user and progress loaded, step 5); after the re-render
  the previous connection state is true. The provider then reports the wallet as not
  connected. The claim promises the token removed and the store reset; the world is
  the one from before, token, user and step included, because the memory of the
  connection keeps \<open>isReallyConnected\<close> true and \<open>handleDisconnect\<close> is not run.
\<close>

theorem C6_provider_disconnect_keeps_session:
  "previousConnectionState (snd (snd (renders None [True, True] sample_session))) = Some True
   \<and> fst (snd (renders None [True, True, False, False] sample_session)) = sample_session
   \<and> jwt_token sample_session = Some ''h.p.s''
   \<and> user sample_session = Some (sample_user ''0xA'')
   \<and> step sample_session = StepNum 5"
  by (simp add: renders_def render_effects_def isReallyConnected_def cw_initial_def
      sample_session_def isTruthy_def Let_def)

section \<open>Registration with an invite code\<close>

lemma trim_blank: "trim ''  '' = []"
  by code_simp

lemma trim_nbsp: "trim [CHR 0xC2, CHR 0xA0] = []"
  by code_simp

lemma trim_code: "trim ''ABC123'' = ''ABC123''"
  by code_simp

lemma trim_empty: "trim [] = []"
  by code_simp

lemma fetchUser_confirm_calls:
  "filter isConfirmAccount (calls (fetchUser e w)) = filter isConfirmAccount (calls w)"
  by (simp add: fetchUser_def Let_def split: option.splits sum.splits)

lemma initialize_try_confirm_calls:
  "filter isConfirmAccount (calls (snd (initialize_try e t w))) = filter isConfirmAccount (calls w)"
  by (simp add: initialize_try_def Let_def fetchUser_confirm_calls
      split: sum.splits js_steps.splits)

lemma initialize_confirm_calls:
  "filter isConfirmAccount (calls (snd (initialize e w))) = filter isConfirmAccount (calls w)"
proof (cases "hasWindow e \<and> isTruthy (jwt_token w)")
  case False
  then show ?thesis by (auto simp: initialize_def)
next
  case True
  have "filter isConfirmAccount
          (calls (snd (initialize_try e (the (jwt_token w)) (w\<lparr> isUserLoading := True \<rparr>))))
        = filter isConfirmAccount (calls w)"
    by (simp add: initialize_try_confirm_calls)
  then show ?thesis
    using True
    by (cases "initialize_try e (the (jwt_token w)) (w\<lparr> isUserLoading := True \<rparr>)")
      (auto simp: initialize_def initialize_catch_progress_def initialize_catch_def Let_def
        split: sum.splits js_thrown.splits)
qed

lemma catch_signError_Thrown: "\<exists>err. catch_signError e x = Thrown err"
  by (cases x) (simp_all add: catch_signError_def)

lemma registerErrorText_Thrown: "\<exists>msg. registerErrorText e (Thrown err) = Inr (Text msg)"
  by (simp add: registerErrorText_def)

lemma register_confirm_no_captcha:
  assumes "\<not> isTruthy (hcaptchaToken cs)"
  shows "\<exists>err w1 nxt1. register_confirm e c cs (w, nxt) = (Inl (Thrown err), w1, nxt1)
           \<and> filter isConfirmAccount (calls w1) = filter isConfirmAccount (calls w)
           \<and> user w1 = user w"
proof (cases "\<not> isTruthy (pendingSignature cs) \<and> isTruthy (pendingWallet cs)")
  case False
  then show ?thesis
    using assms by (auto simp: register_confirm_def Let_def)
next
  case True
  show ?thesis
  proof (cases "signMessage e (the (pendingWallet cs)) w")
    case (Pair r w1)
    have frame: "filter isConfirmAccount (calls w1) = filter isConfirmAccount (calls w)"
        "user w1 = user w"
      using Pair by (auto simp: signMessage_def split: sum.splits)
    show ?thesis
    proof (cases r)
      case (Inl signError)
      obtain err where "catch_signError e signError = Thrown err"
        using catch_signError_Thrown by blast
      then show ?thesis
        using True Pair Inl frame by (simp add: register_confirm_def Let_def)
    next
      case (Inr signature)
      obtain err where "catch_signError e (Thrown
          (Error ''Please complete the captcha verification to proceed.'')) = Thrown err"
        using catch_signError_Thrown by blast
      then show ?thesis
        using True Pair Inr frame assms by (simp add: register_confirm_def Let_def)
    qed
  qed
qed

lemma register_no_code:
  assumes "trim (inviteCode cs) = []" and "\<not> isTruthy r"
  shows "handleRegisterWithInvite e r (w, cs)
           = (Inr (), w, cs\<lparr> inviteError := Some (Text ''Invite code is required'') \<rparr>)"
  using assms by (simp add: handleRegisterWithInvite_def codeToUse_def)

lemma register_no_wallet:
  assumes "isTruthy (codeToUse r cs)" and "\<not> isTruthy (pendingWallet cs)"
  shows "handleRegisterWithInvite e r (w, cs)
           = (Inr (), w, cs\<lparr> inviteError :=
                Some (Text ''Authentication error. Please connect your wallet first.'') \<rparr>)"
  using assms by (simp add: handleRegisterWithInvite_def)

lemma register_no_captcha:
  assumes "\<not> isTruthy (hcaptchaToken cs)"
  shows "fst (handleRegisterWithInvite e r (w, cs)) = Inr ()"
    and "\<exists>msg. inviteError (snd (snd (handleRegisterWithInvite e r (w, cs)))) = Some (Text msg)"
    and "filter isConfirmAccount (calls (fst (snd (handleRegisterWithInvite e r (w, cs)))))
           = filter isConfirmAccount (calls w)"
    and "user (fst (snd (handleRegisterWithInvite e r (w, cs)))) = user w"
proof -
  obtain err w1 nxt1 where
    rc: "register_confirm e (the (codeToUse r cs)) cs
           (w, cs\<lparr> isLoading := True, inviteError := None \<rparr>) = (Inl (Thrown err), w1, nxt1)"
    and frame: "filter isConfirmAccount (calls w1) = filter isConfirmAccount (calls w)"
      "user w1 = user w"
    using register_confirm_no_captcha [OF assms] by blast
  obtain msg where shown: "registerErrorText e (Thrown err) = Inr (Text msg)"
    using registerErrorText_Thrown by blast
  show "fst (handleRegisterWithInvite e r (w, cs)) = Inr ()"
    using rc shown by (simp add: handleRegisterWithInvite_def)
  show "\<exists>msg. inviteError (snd (snd (handleRegisterWithInvite e r (w, cs)))) = Some (Text msg)"
    using rc shown by (simp add: handleRegisterWithInvite_def)
  show "filter isConfirmAccount (calls (fst (snd (handleRegisterWithInvite e r (w, cs)))))
           = filter isConfirmAccount (calls w)"
    using rc shown frame by (simp add: handleRegisterWithInvite_def)
  show "user (fst (snd (handleRegisterWithInvite e r (w, cs)))) = user w"
    using rc shown frame by (simp add: handleRegisterWithInvite_def)
qed

lemma register_captcha_message:
  assumes "\<not> isTruthy (hcaptchaToken cs)" and "isTruthy (codeToUse r cs)"
    and "isTruthy (pendingWallet cs)" and "isTruthy (pendingSignature cs)"
  shows "inviteError (snd (snd (handleRegisterWithInvite e r (w, cs))))
           = Some (Text ''Please complete the captcha verification.'')"
  using assms
  by (simp add: handleRegisterWithInvite_def register_confirm_def Let_def registerErrorText_def
      Error_def isTruthy_def)

lemma register_captcha_message_signed:
  assumes "\<not> isTruthy (hcaptchaToken cs)" and "isTruthy (codeToUse r cs)"
    and "isTruthy (pendingWallet cs)" and "\<not> isTruthy (pendingSignature cs)"
    and "getSigner e = Inr ()"
    and "signerSignMessage e (welcomeMessage (the (pendingWallet cs))) = Inr sg"
  shows "inviteError (snd (snd (handleRegisterWithInvite e r (w, cs))))
           = Some (Text ''Please complete the captcha verification to proceed.'')"
  using assms
  by (simp add: handleRegisterWithInvite_def register_confirm_def signMessage_def Let_def
      registerErrorText_def catch_signError_def messageIncludes_def Error_def isTruthy_def)

lemma register_sign_failure:
  assumes "isTruthy (codeToUse r cs)"
    and "isTruthy (pendingWallet cs)" and "\<not> isTruthy (pendingSignature cs)"
    and "getSigner e = Inr ()"
    and "signerSignMessage e (welcomeMessage (the (pendingWallet cs))) = Inl x"
  shows "registerErrorText e (catch_signError e x)
           = Inr (the (inviteError (snd (snd (handleRegisterWithInvite e r (w, cs))))))"
proof -
  obtain err where c: "catch_signError e x = Thrown err"
    using catch_signError_Thrown by blast
  show ?thesis
    using assms c
    by (simp add: handleRegisterWithInvite_def register_confirm_def signMessage_def Let_def
        registerErrorText_def)
qed

lemma register_uses_url_code:
  assumes "trim (inviteCode cs) = []" and "isTruthy r" and "isTruthy (pendingWallet cs)"
    and "isTruthy (pendingSignature cs)" and "isTruthy (hcaptchaToken cs)"
  shows "filter isConfirmAccount (calls (fst (snd (handleRegisterWithInvite e r (w, cs)))))
           = filter isConfirmAccount (calls w)
             @ [ConfirmAccount (the (pendingWallet cs)) (the (pendingSignature cs)) (the r)
                  (the (hcaptchaToken cs))]"
  using assms
  by (simp add: handleRegisterWithInvite_def register_confirm_def Let_def codeToUse_def
      initialize_confirm_calls setUser_def registerErrorText_def
      split: sum.splits option.splits js_thrown.splits)

lemma register_signs_then_uses_url_code:
  assumes "trim (inviteCode cs) = []" and "isTruthy r" and "isTruthy (pendingWallet cs)"
    and "\<not> isTruthy (pendingSignature cs)" and "isTruthy (hcaptchaToken cs)"
    and "getSigner e = Inr ()"
    and "signerSignMessage e (welcomeMessage (the (pendingWallet cs))) = Inr sg"
  shows "filter isConfirmAccount (calls (fst (snd (handleRegisterWithInvite e r (w, cs)))))
           = filter isConfirmAccount (calls w)
             @ [ConfirmAccount (the (pendingWallet cs)) sg (the r) (the (hcaptchaToken cs))]"
proof (cases "confirmAccount e (the (pendingWallet cs)) sg (the r) (the (hcaptchaToken cs))")
  case (Inl x)
  obtain err where c: "catch_signError e x = Thrown err"
    using catch_signError_Thrown by blast
  show ?thesis
    using assms Inl c
    by (simp add: handleRegisterWithInvite_def register_confirm_def signMessage_def Let_def
        codeToUse_def registerErrorText_def)
next
  case (Inr u)
  show ?thesis
    using assms Inr
    by (cases u) (simp_all add: handleRegisterWithInvite_def register_confirm_def
        signMessage_def Let_def codeToUse_def initialize_confirm_calls setUser_def
        registerErrorText_def Error_def)
qed

text \<open>
  C8, as stated, at a registration with the URL code \<open>ABC123\<close>, a pending wallet, no
  pending signature and no CAPTCHA token, where the wallet declines the signature
  request: the handler asks for the signature before it looks at the CAPTCHA token,
  and the error it records is the declined signature, not a validation error.
\<close>

theorem C8_declined_signature_counterexample:
  "hcaptchaToken (cw_initial\<lparr> pendingWallet := Some ''0xA'' \<rparr>) = None
   \<and> codeToUse (Some ''ABC123'') (cw_initial\<lparr> pendingWallet := Some ''0xA'' \<rparr>)
       = Some ''ABC123''
   \<and> inviteError (snd (snd (handleRegisterWithInvite declining_env (Some ''ABC123'')
         (sample_world, cw_initial\<lparr> pendingWallet := Some ''0xA'' \<rparr>))))
       = Some (Text ''You declined the signature request. Please try again.'')"
  by (simp add: cw_initial_def declining_env_def sample_env_def codeToUse_def trim_empty
      handleRegisterWithInvite_def register_confirm_def signMessage_def catch_signError_def
      registerErrorText_def Error_def isTruthy_def Let_def)

text \<open>
  C8, amended. In \<open>handleRegisterWithInvite\<close>, when the entered invite code is empty
  after \<open>trim\<close>, the code in use is the one of the entry URL, and it is the code
  passed to \<open>confirmAccount\<close>, with the pending signature or after signing first.
  When the URL has none either, the handler only records the validation error
  \<open>Invite code is required\<close>: the world, and with it the trace of calls, is
  unchanged. When no CAPTCHA token is present, the handler issues no
  \<open>confirmAccount\<close> call, does not replace the user, and ends normally with an error
  text recorded in \<open>inviteError\<close>. That error is the CAPTCHA validation error when a
  code, a pending wallet and a signature are at hand (a pending signature, or a
  signature request that succeeds); it is the error of the missing wallet when there
  is a code and no pending wallet; and when the signature request fails, which comes
  before the CAPTCHA check, it is the error of that failure.
\<close>

theorem C8_register_with_invite:
  "(trim (inviteCode cs) = [] \<longrightarrow> codeToUse r cs = r)
   \<and> (trim (inviteCode cs) = [] \<and> isTruthy r \<and> isTruthy (pendingWallet cs)
        \<and> isTruthy (pendingSignature cs) \<and> isTruthy (hcaptchaToken cs) \<longrightarrow>
        filter isConfirmAccount (calls (fst (snd (handleRegisterWithInvite e r (w, cs)))))
          = filter isConfirmAccount (calls w)
            @ [ConfirmAccount (the (pendingWallet cs)) (the (pendingSignature cs)) (the r)
                 (the (hcaptchaToken cs))])
   \<and> (trim (inviteCode cs) = [] \<and> isTruthy r \<and> isTruthy (pendingWallet cs)
        \<and> \<not> isTruthy (pendingSignature cs) \<and> isTruthy (hcaptchaToken cs)
        \<and> getSigner e = Inr ()
        \<and> signerSignMessage e (welcomeMessage (the (pendingWallet cs))) = Inr sg \<longrightarrow>
        filter isConfirmAccount (calls (fst (snd (handleRegisterWithInvite e r (w, cs)))))
          = filter isConfirmAccount (calls w)
            @ [ConfirmAccount (the (pendingWallet cs)) sg (the r) (the (hcaptchaToken cs))])
   \<and> (trim (inviteCode cs) = [] \<and> \<not> isTruthy r \<longrightarrow>
        handleRegisterWithInvite e r (w, cs)
          = (Inr (), w, cs\<lparr> inviteError := Some (Text ''Invite code is required'') \<rparr>))
   \<and> (\<not> isTruthy (hcaptchaToken cs) \<longrightarrow>
        fst (handleRegisterWithInvite e r (w, cs)) = Inr ()
        \<and> (\<exists>msg. inviteError (snd (snd (handleRegisterWithInvite e r (w, cs))))
              = Some (Text msg))
        \<and> filter isConfirmAccount (calls (fst (snd (handleRegisterWithInvite e r (w, cs)))))
            = filter isConfirmAccount (calls w)
        \<and> user (fst (snd (handleRegisterWithInvite e r (w, cs)))) = user w)
   \<and> (\<not> isTruthy (hcaptchaToken cs) \<and> isTruthy (codeToUse r cs)
        \<and> isTruthy (pendingWallet cs) \<and> isTruthy (pendingSignature cs) \<longrightarrow>
        inviteError (snd (snd (handleRegisterWithInvite e r (w, cs))))
          = Some (Text ''Please complete the captcha verification.''))
   \<and> (\<not> isTruthy (hcaptchaToken cs) \<and> isTruthy (codeToUse r cs)
        \<and> isTruthy (pendingWallet cs) \<and> \<not> isTruthy (pendingSignature cs)
        \<and> getSigner e = Inr ()
        \<and> signerSignMessage e (welcomeMessage (the (pendingWallet cs))) = Inr sg \<longrightarrow>
        inviteError (snd (snd (handleRegisterWithInvite e r (w, cs))))
          = Some (Text ''Please complete the captcha verification to proceed.''))
   \<and> (isTruthy (codeToUse r cs) \<and> \<not> isTruthy (pendingWallet cs) \<longrightarrow>
        inviteError (snd (snd (handleRegisterWithInvite e r (w, cs))))
          = Some (Text ''Authentication error. Please connect your wallet first.''))
   \<and> (isTruthy (codeToUse r cs) \<and> isTruthy (pendingWallet cs)
        \<and> \<not> isTruthy (pendingSignature cs) \<and> getSigner e = Inr ()
        \<and> signerSignMessage e (welcomeMessage (the (pendingWallet cs))) = Inl x \<longrightarrow>
        registerErrorText e (catch_signError e x)
          = Inr (the (inviteError (snd (snd (handleRegisterWithInvite e r (w, cs)))))))"
proof -
  have c1: "trim (inviteCode cs) = [] \<longrightarrow> codeToUse r cs = r"
    by (simp add: codeToUse_def)
  have c2: "trim (inviteCode cs) = [] \<and> isTruthy r \<and> isTruthy (pendingWallet cs)
        \<and> isTruthy (pendingSignature cs) \<and> isTruthy (hcaptchaToken cs) \<longrightarrow>
        filter isConfirmAccount (calls (fst (snd (handleRegisterWithInvite e r (w, cs)))))
          = filter isConfirmAccount (calls w)
            @ [ConfirmAccount (the (pendingWallet cs)) (the (pendingSignature cs)) (the r)
                 (the (hcaptchaToken cs))]"
    using register_uses_url_code [of cs r e w] by blast
  have c3: "trim (inviteCode cs) = [] \<and> isTruthy r \<and> isTruthy (pendingWallet cs)
        \<and> \<not> isTruthy (pendingSignature cs) \<and> isTruthy (hcaptchaToken cs)
        \<and> getSigner e = Inr ()
        \<and> signerSignMessage e (welcomeMessage (the (pendingWallet cs))) = Inr sg \<longrightarrow>
        filter isConfirmAccount (calls (fst (snd (handleRegisterWithInvite e r (w, cs)))))
          = filter isConfirmAccount (calls w)
            @ [ConfirmAccount (the (pendingWallet cs)) sg (the r) (the (hcaptchaToken cs))]"
    using register_signs_then_uses_url_code [of cs r e sg w] by blast
  have c4: "trim (inviteCode cs) = [] \<and> \<not> isTruthy r \<longrightarrow>
        handleRegisterWithInvite e r (w, cs)
          = (Inr (), w, cs\<lparr> inviteError := Some (Text ''Invite code is required'') \<rparr>)"
    using register_no_code [of cs r e w] by blast
  have c5: "\<not> isTruthy (hcaptchaToken cs) \<longrightarrow>
        fst (handleRegisterWithInvite e r (w, cs)) = Inr ()
        \<and> (\<exists>msg. inviteError (snd (snd (handleRegisterWithInvite e r (w, cs))))
              = Some (Text msg))
        \<and> filter isConfirmAccount (calls (fst (snd (handleRegisterWithInvite e r (w, cs)))))
            = filter isConfirmAccount (calls w)
        \<and> user (fst (snd (handleRegisterWithInvite e r (w, cs)))) = user w"
    using register_no_captcha [of cs e r w] by blast
  have c6: "\<not> isTruthy (hcaptchaToken cs) \<and> isTruthy (codeToUse r cs)
        \<and> isTruthy (pendingWallet cs) \<and> isTruthy (pendingSignature cs) \<longrightarrow>
        inviteError (snd (snd (handleRegisterWithInvite e r (w, cs))))
          = Some (Text ''Please complete the captcha verification.'')"
    using register_captcha_message [of cs r e w] by blast
  have c7: "\<not> isTruthy (hcaptchaToken cs) \<and> isTruthy (codeToUse r cs)
        \<and> isTruthy (pendingWallet cs) \<and> \<not> isTruthy (pendingSignature cs)
        \<and> getSigner e = Inr ()
        \<and> signerSignMessage e (welcomeMessage (the (pendingWallet cs))) = Inr sg \<longrightarrow>
        inviteError (snd (snd (handleRegisterWithInvite e r (w, cs))))
          = Some (Text ''Please complete the captcha verification to proceed.'')"
    using register_captcha_message_signed [of cs r e sg w] by blast
  have c8: "isTruthy (codeToUse r cs) \<and> \<not> isTruthy (pendingWallet cs) \<longrightarrow>
        inviteError (snd (snd (handleRegisterWithInvite e r (w, cs))))
          = Some (Text ''Authentication error. Please connect your wallet first.'')"
    by (simp add: register_no_wallet)
  have c9: "isTruthy (codeToUse r cs) \<and> isTruthy (pendingWallet cs)
        \<and> \<not> isTruthy (pendingSignature cs) \<and> getSigner e = Inr ()
        \<and> signerSignMessage e (welcomeMessage (the (pendingWallet cs))) = Inl x \<longrightarrow>
        registerErrorText e (catch_signError e x)
          = Inr (the (inviteError (snd (snd (handleRegisterWithInvite e r (w, cs))))))"
    using register_sign_failure [of r cs e x w] by blast
  show ?thesis
    by (intro conjI) (rule c1, rule c2, rule c3, rule c4, rule c5, rule c6, rule c7, rule c8, rule c9)
qed

theorem C8_register_with_invite_witness:
  "codeToUse (Some ''ABC123'')
       (cw_initial\<lparr> inviteCode := [CHR 0xC2, CHR 0xA0], pendingWallet := Some ''0xA'',
                     pendingSignature := Some ''0xsig'', hcaptchaToken := Some ''cap'' \<rparr>)
     = Some ''ABC123''
   \<and> filter isConfirmAccount (calls (fst (snd (handleRegisterWithInvite
         (sample_env (Inr (Some ''0xA'')) (Inr (steps_progress []))) (Some ''ABC123'')
         (sample_world, cw_initial\<lparr> inviteCode := [CHR 0xC2, CHR 0xA0],
                     pendingWallet := Some ''0xA'', pendingSignature := Some ''0xsig'',
                     hcaptchaToken := Some ''cap'' \<rparr>)))))
     = [ConfirmAccount ''0xA'' ''0xsig'' ''ABC123'' ''cap'']
   \<and> inviteError (snd (snd (handleRegisterWithInvite
         (sample_env (Inr (Some ''0xA'')) (Inr (steps_progress []))) None
         (sample_world, cw_initial\<lparr> inviteCode := ''  '', pendingWallet := Some ''0xA'' \<rparr>))))
     = Some (Text ''Invite code is required'')
   \<and> inviteError (snd (snd (handleRegisterWithInvite
         (sample_env (Inr (Some ''0xA'')) (Inr (steps_progress []))) None
         (sample_world, cw_initial\<lparr> inviteCode := ''ABC123'', pendingWallet := Some ''0xA'',
                     pendingSignature := Some ''0xsig'' \<rparr>))))
     = Some (Text ''Please complete the captcha verification.'')
   \<and> filter isConfirmAccount (calls (fst (snd (handleRegisterWithInvite
         (sample_env (Inr (Some ''0xA'')) (Inr (steps_progress []))) None
         (sample_world, cw_initial\<lparr> inviteCode := ''ABC123'', pendingWallet := Some ''0xA'',
                     pendingSignature := Some ''0xsig'' \<rparr>)))))
     = []"
  using C8_register_with_invite [of
      "cw_initial\<lparr> inviteCode := [CHR 0xC2, CHR 0xA0], pendingWallet := Some ''0xA'',
                    pendingSignature := Some ''0xsig'', hcaptchaToken := Some ''cap'' \<rparr>"
      "Some ''ABC123''" "sample_env (Inr (Some ''0xA'')) (Inr (steps_progress []))" sample_world]
    C8_register_with_invite [of
      "cw_initial\<lparr> inviteCode := ''  '', pendingWallet := Some ''0xA'' \<rparr>" None
      "sample_env (Inr (Some ''0xA'')) (Inr (steps_progress []))" sample_world]
    C8_register_with_invite [of
      "cw_initial\<lparr> inviteCode := ''ABC123'', pendingWallet := Some ''0xA'',
                    pendingSignature := Some ''0xsig'' \<rparr>"
      None "sample_env (Inr (Some ''0xA'')) (Inr (steps_progress []))" sample_world]
  by (simp add: cw_initial_def sample_world_def isTruthy_def trim_blank trim_nbsp trim_code
      codeToUse_def)

end
